theory Spec2Isabelle
  imports Complex_Main "HOL-Library.AList" "HOL-Library.Multiset"
begin

section \<open>The lobby server of backend/src/index.ts\<close>

text \<open>
  A shallow embedding of the Express and Socket.IO handlers of the backend. The four
  in-memory tables and the \<open>messages\<close> table are one state record that every handler
  takes and returns. What the handlers read from outside (the request payload, the clock,
  the random generator, the outcome of a database write, the outcome of the completion
  call) is an argument of the handler. A JavaScript string is a \<open>string\<close> whose length is
  the length the source's \<open>.length\<close> reads.
\<close>

subsection \<open>Payloads and schemas\<close>

text \<open>
  A request body or event payload, as the JSON value the handler receives. An object is
  the list of its properties, each key once.
\<close>

datatype json =
  JNull
| JBool bool
| JNum real
| JStr string
| JArr "json list"
| JObj "(string \<times> json) list"

text \<open>Reading a property: \<open>None\<close> is JavaScript's \<open>undefined\<close>.\<close>

fun field :: "json \<Rightarrow> string \<Rightarrow> json option" where
  "field (JObj kvs) k = map_of kvs k"
| "field _ k = None"

fun is_object :: "json \<Rightarrow> bool" where
  "is_object (JObj kvs) = True"
| "is_object _ = False"

text \<open>\<open>z.string()\<close>: the value must be a string.\<close>

fun z_string :: "json option \<Rightarrow> string option" where
  "z_string (Some (JStr s)) = Some s"
| "z_string _ = None"

text \<open>\<open>z.string().min(lo).max(hi)\<close>.\<close>

definition z_string_min_max :: "nat \<Rightarrow> nat \<Rightarrow> json option \<Rightarrow> string option" where
  "z_string_min_max lo hi v =
     (case z_string v of
        None \<Rightarrow> None
      | Some s \<Rightarrow> if lo \<le> length s \<and> length s \<le> hi then Some s else None)"

text \<open>
  \<open>createLobbySchema.safeParse\<close>: \<open>None\<close> is \<open>success: false\<close>, otherwise the parsed
  \<open>nickname\<close> and the optional \<open>openaiApiKey\<close>.
\<close>

definition createLobbySchema :: "json \<Rightarrow> (string \<times> string option) option" where
  "createLobbySchema body =
     (if \<not> is_object body then None
      else case z_string_min_max 1 32 (field body ''nickname'') of
        None \<Rightarrow> None
      | Some nickname \<Rightarrow>
          (case field body ''openaiApiKey'' of
             None \<Rightarrow> Some (nickname, None)
           | Some v \<Rightarrow>
               (case z_string_min_max 1 200 (Some v) of
                  None \<Rightarrow> None
                | Some k \<Rightarrow> Some (nickname, Some k))))"

text \<open>\<open>joinLobbySchema.safeParse\<close>: the parsed \<open>code\<close> and \<open>nickname\<close>.\<close>

definition joinLobbySchema :: "json \<Rightarrow> (string \<times> string) option" where
  "joinLobbySchema payload =
     (if \<not> is_object payload then None
      else case z_string_min_max 4 10 (field payload ''code'') of
        None \<Rightarrow> None
      | Some code \<Rightarrow>
          (case z_string_min_max 1 32 (field payload ''nickname'') of
             None \<Rightarrow> None
           | Some nickname \<Rightarrow> Some (code, nickname)))"

text \<open>
  The \<open>messageSchema\<close> of the message handler: \<open>code\<close> and \<open>nickname\<close> are any string,
  \<open>content\<close> is a string of 1 to 400.
\<close>

definition messageSchema :: "json \<Rightarrow> (string \<times> string \<times> string) option" where
  "messageSchema payload =
     (if \<not> is_object payload then None
      else case z_string (field payload ''code'') of
        None \<Rightarrow> None
      | Some code \<Rightarrow>
          (case z_string (field payload ''nickname'') of
             None \<Rightarrow> None
           | Some nickname \<Rightarrow>
               (case z_string_min_max 1 400 (field payload ''content'') of
                  None \<Rightarrow> None
                | Some content \<Rightarrow> Some (code, nickname, content))))"

subsection \<open>State\<close>

record LobbyData =
  code :: string
  openaiKey :: "string option"

text \<open>
  A row of the \<open>messages\<close> table. The column \<open>id\<close> is \<open>msg_id\<close> here (\<open>id\<close> is the
  identity function of HOL).
\<close>

record message_row =
  msg_id :: int
  lobbyCode :: string
  sender :: string
  role :: string
  content :: string
  createdAt :: int

text \<open>
  The table: its rows in insertion order, and the largest row id ever given out, which
  \<open>AUTOINCREMENT\<close> keeps.
\<close>

record database =
  rows :: "message_row list"
  seq :: int

text \<open>
  \<open>lobbyUsers\<close> maps a code to a JavaScript \<open>Map\<close> from socket id to nickname, which
  iterates in insertion order: an association list, written with \<open>AList.update\<close> (a
  key that is present keeps its place, a new key goes to the end) and \<open>AList.delete\<close>.
  \<open>rooms\<close> is the room membership that \<open>socket.join\<close> writes.
\<close>

record state =
  lobbies :: "string \<rightharpoonup> LobbyData"
  lobbyUsers :: "string \<rightharpoonup> (string \<times> string) list"
  socketToLobby :: "string \<rightharpoonup> string"
  socketToNickname :: "string \<rightharpoonup> string"
  db :: database
  rooms :: "string \<Rightarrow> string set"

text \<open>The server at start: empty tables, and whatever the database file holds.\<close>

definition init :: "database \<Rightarrow> state" where
  "init d = \<lparr>lobbies = Map.empty, lobbyUsers = Map.empty, socketToLobby = Map.empty,
            socketToNickname = Map.empty, db = d, rooms = (\<lambda>r. {})\<rparr>"

subsection \<open>Lobby codes\<close>

definition alphabet :: string where
  "alphabet = ''ABCDEFGHJKLMNPQRSTUVWXYZ23456789''"

text \<open>
  \<open>alphabet[Math.floor(Math.random() * alphabet.length)]\<close> for the reading \<open>r\<close> of
  \<open>Math.random()\<close>. Multiplying by the length 32 and taking the floor are exact on
  doubles. An index outside the string reads \<open>undefined\<close>, which \<open>+=\<close> appends as text.
\<close>

definition pick :: "real \<Rightarrow> string" where
  "pick r =
     (let i = \<lfloor>r * real (length alphabet)\<rfloor>
      in if 0 \<le> i \<and> i < int (length alphabet) then [alphabet ! nat i] else ''undefined'')"

text \<open>The loop of \<open>generateCode\<close>; \<open>rnd i\<close> is what \<open>Math.random()\<close> returns in round \<open>i\<close>.\<close>

function generateCode_loop :: "(nat \<Rightarrow> real) \<Rightarrow> nat \<Rightarrow> string \<Rightarrow> string" where
  "generateCode_loop rnd i c =
     (if i < 6 then generateCode_loop rnd (i + 1) (c @ pick (rnd i)) else c)"
  by pat_completeness auto
termination
  by (relation "measure (\<lambda>(rnd, i, c). 6 - i)") auto

definition generateCode :: "(nat \<Rightarrow> real) \<Rightarrow> string" where
  "generateCode rnd = generateCode_loop rnd 0 ''''"

subsection \<open>Request/response handlers\<close>

text \<open>
  A response body. The 400 body also carries \<open>details\<close>, the issue list of the schema
  library, which is left out.
\<close>

datatype body =
  ErrorBody string
| CodeBody string
| OkBody
| MessagesBody "message_row list"

type_synonym response = "nat \<times> body"

text \<open>\<open>a || b\<close> on optional strings: the empty string and \<open>undefined\<close> are falsy.\<close>

definition truthy :: "string option \<Rightarrow> bool" where
  "truthy a = (case a of None \<Rightarrow> False | Some s \<Rightarrow> s \<noteq> [])"

definition js_or :: "string option \<Rightarrow> string option \<Rightarrow> string option" where
  "js_or a b = (if truthy a then a else b)"

text \<open>
  \<open>POST /lobby\<close>. \<open>envKey\<close> is \<open>process.env.OPENAI_API_KEY\<close>. An existing lobby with the
  same code is overwritten.
\<close>

definition post_lobby ::
  "string option \<Rightarrow> (nat \<Rightarrow> real) \<Rightarrow> json \<Rightarrow> state \<Rightarrow> response \<times> state" where
  "post_lobby envKey rnd reqBody s =
     (case createLobbySchema reqBody of
        None \<Rightarrow> ((400, ErrorBody ''Invalid payload''), s)
      | Some (nickname, openaiApiKey) \<Rightarrow>
          (let c = generateCode rnd
           in ((200, CodeBody c),
               s\<lparr>lobbies := (lobbies s)(c \<mapsto> \<lparr>code = c, openaiKey = js_or openaiApiKey envKey\<rparr>),
                 lobbyUsers := (lobbyUsers s)(c \<mapsto> [])\<rparr>)))"

text \<open>\<open>POST /lobby/join\<close>: a check only, the state is not written.\<close>

definition post_lobby_join :: "json \<Rightarrow> state \<Rightarrow> response \<times> state" where
  "post_lobby_join reqBody s =
     (case joinLobbySchema reqBody of
        None \<Rightarrow> ((400, ErrorBody ''Invalid payload''), s)
      | Some (c, nickname) \<Rightarrow>
          if lobbies s c = None then ((404, ErrorBody ''Lobby not found''), s)
          else ((200, OkBody), s))"

text \<open>
  \<open>selectMessages.all(code)\<close>: the rows of the lobby, \<open>ORDER BY createdAt ASC\<close>. Rows
  with the same \<open>createdAt\<close> stay in insertion order here; SQL leaves that open.
\<close>

definition selectMessages :: "database \<Rightarrow> string \<Rightarrow> message_row list" where
  "selectMessages d c = sort_key createdAt (filter (\<lambda>r. lobbyCode r = c) (rows d))"

text \<open>\<open>GET /lobby/:code/messages\<close>.\<close>

definition get_messages :: "string \<Rightarrow> state \<Rightarrow> response \<times> state" where
  "get_messages c s =
     (if lobbies s c = None then ((404, ErrorBody ''Lobby not found''), s)
      else ((200, MessagesBody (selectMessages (db s) c)), s))"

subsection \<open>Writing the table\<close>

datatype error = StorageError

text \<open>Whether a write reaches the disk is decided outside the program.\<close>

datatype write_outcome = WriteOk | WriteFails

text \<open>
  \<open>insertMessage.run(lobbyCode, sender, role, content, createdAt)\<close>: the statement names
  five columns, and \<open>id\<close> is given by \<open>AUTOINCREMENT\<close>: one more than the largest id so
  far. A failed write throws and leaves the table as it was.
\<close>

definition insertMessage_run ::
  "write_outcome \<Rightarrow> database \<Rightarrow> string \<Rightarrow> string \<Rightarrow> string \<Rightarrow> string \<Rightarrow> int \<Rightarrow> error + database" where
  "insertMessage_run w d c who rl txt t =
     (case w of
        WriteFails \<Rightarrow> Inl StorageError
      | WriteOk \<Rightarrow>
          Inr \<lparr>rows = rows d @ [\<lparr>msg_id = seq d + 1, lobbyCode = c, sender = who, role = rl,
                                  content = txt, createdAt = t\<rparr>],
               seq = seq d + 1\<rparr>)"

subsection \<open>Live-connection handlers\<close>

text \<open>What \<open>io.to(room).emit(event, payload)\<close> sends.\<close>

datatype payload =
  MessagePayload (p_id: int) (p_sender: string) (p_role: string) (p_content: string)
    (p_createdAt: int)
| UsersPayload "string list"

type_synonym emit = "string \<times> string \<times> payload"

text \<open>The argument of the acknowledgement callback: \<open>{}\<close> or \<open>{error}\<close>.\<close>

datatype ack = AckOk | AckError string

text \<open>\<open>callback?.(a)\<close>: called only when the client passed a callback (\<open>cb\<close>).\<close>

definition callback :: "bool \<Rightarrow> ack \<Rightarrow> ack list" where
  "callback cb a = (if cb then [a] else [])"

text \<open>
  What one run of a listener leaves: the state, the emits in order, the acknowledgements
  handed to the sender, the exception that left the listener (if any), and the completion
  call that is still awaited: lobby code, key and user content. The listeners are
  \<open>async\<close> and the file registers no handler for a rejected promise, so an exception
  that leaves a listener ends the process; \<open>st\<close> is then the tables at the throw.
\<close>

record outcome =
  st :: state
  emits :: "emit list"
  acks :: "ack list"
  thrown :: "error option"
  pending :: "(string \<times> string \<times> string) option"

definition broadcastUsers :: "state \<Rightarrow> string \<Rightarrow> emit list" where
  "broadcastUsers s c =
     [(c, ''users'', UsersPayload (map snd (case lobbyUsers s c of None \<Rightarrow> [] | Some us \<Rightarrow> us)))]"

text \<open>
  \<open>sendAssistantMessage\<close> up to its \<open>await\<close>. Without a key it emits the notice and
  returns; \<open>t1\<close> and \<open>t2\<close> are the two readings of \<open>Date.now()\<close> in the notice. With a key
  it starts the completion call, and the rest runs when the call settles.
\<close>

definition sendAssistantMessage ::
  "int \<Rightarrow> int \<Rightarrow> string \<Rightarrow> string \<Rightarrow> state \<Rightarrow> emit list \<times> (string \<times> string \<times> string) option" where
  "sendAssistantMessage t1 t2 c txt s =
     (let apiKey = (case lobbies s c of None \<Rightarrow> None | Some lobby \<Rightarrow> openaiKey lobby)
      in if \<not> truthy apiKey
         then ([(c, ''message'',
                 MessagePayload t1 ''DM'' ''assistant''
                   ''No OpenAI API key configured for this lobby.'' t2)], None)
         else ([], Some (c, the apiKey, txt)))"

text \<open>
  How the completion call settles: with the text of the first choice (\<open>None\<close> when the
  response has no such text), or by throwing.
\<close>

datatype provider_outcome = Completion "string option" | ProviderError

text \<open>
  \<open>sendAssistantMessage\<close> after its \<open>await\<close>, inside the \<open>try\<close>. \<open>now\<close> is the reading
  of \<open>Date.now()\<close> for \<open>createdAt\<close>; \<open>t1\<close> and \<open>t2\<close> are the readings in the \<open>catch\<close>
  block, which a failed write of the reply reaches as well.
\<close>

definition sendAssistantMessage_resume ::
  "provider_outcome \<Rightarrow> write_outcome \<Rightarrow> int \<Rightarrow> int \<Rightarrow> int \<Rightarrow> string \<Rightarrow> state \<Rightarrow> state \<times> emit list" where
  "sendAssistantMessage_resume p w now t1 t2 c s =
     (let unavailable =
            (c, ''message'',
             MessagePayload t1 ''DM'' ''assistant'' ''The DM is unavailable right now.'' t2)
      in case p of
           ProviderError \<Rightarrow> (s, [unavailable])
         | Completion txt \<Rightarrow>
             (let assistantMessage = (if truthy txt then the txt else ''Ready to keep chatting!'')
              in case insertMessage_run w (db s) c ''DM'' ''assistant'' assistantMessage now of
                   Inl e \<Rightarrow> (s, [unavailable])
                 | Inr d \<Rightarrow>
                     (s\<lparr>db := d\<rparr>,
                      [(c, ''message'',
                        MessagePayload now ''DM'' ''assistant'' assistantMessage now)])))"

text \<open>The \<open>joinLobby\<close> listener of the socket \<open>sid\<close>.\<close>

definition on_joinLobby :: "string \<Rightarrow> bool \<Rightarrow> json \<Rightarrow> state \<Rightarrow> outcome" where
  "on_joinLobby sid cb p s =
     (case joinLobbySchema p of
        None \<Rightarrow>
          \<lparr>st = s, emits = [], acks = callback cb (AckError ''Invalid payload''),
           thrown = None, pending = None\<rparr>
      | Some (c, nickname) \<Rightarrow>
          if lobbies s c = None
          then \<lparr>st = s, emits = [], acks = callback cb (AckError ''Lobby not found''),
                thrown = None, pending = None\<rparr>
          else
            (let users = (case lobbyUsers s c of None \<Rightarrow> [] | Some us \<Rightarrow> us);
                 s' = s\<lparr>rooms := (rooms s)(c := insert sid (rooms s c)),
                        socketToLobby := (socketToLobby s)(sid \<mapsto> c),
                        socketToNickname := (socketToNickname s)(sid \<mapsto> nickname),
                        lobbyUsers := (lobbyUsers s)(c \<mapsto> AList.update sid nickname users)\<rparr>
             in \<lparr>st = s', emits = broadcastUsers s' c, acks = callback cb AckOk,
                 thrown = None, pending = None\<rparr>))"

text \<open>
  The \<open>message\<close> listener. \<open>now\<close> is the reading of \<open>Date.now()\<close> for \<open>createdAt\<close>. The
  insert is not inside a \<open>try\<close>: when it throws, the listener ends there, before the
  emit and before the callback.
\<close>

definition on_message ::
  "bool \<Rightarrow> write_outcome \<Rightarrow> int \<Rightarrow> int \<Rightarrow> int \<Rightarrow> json \<Rightarrow> state \<Rightarrow> outcome" where
  "on_message cb w now t1 t2 p s =
     (case messageSchema p of
        None \<Rightarrow>
          \<lparr>st = s, emits = [], acks = callback cb (AckError ''Invalid payload''),
           thrown = None, pending = None\<rparr>
      | Some (c, nickname, txt) \<Rightarrow>
          if lobbies s c = None
          then \<lparr>st = s, emits = [], acks = callback cb (AckError ''Lobby not found''),
                thrown = None, pending = None\<rparr>
          else
            (case insertMessage_run w (db s) c nickname ''user'' txt now of
               Inl e \<Rightarrow> \<lparr>st = s, emits = [], acks = [], thrown = Some e, pending = None\<rparr>
             | Inr d \<Rightarrow>
                 (let s' = s\<lparr>db := d\<rparr>;
                      message = MessagePayload now nickname ''user'' txt now;
                      (es, pend) = sendAssistantMessage t1 t2 c txt s'
                  in \<lparr>st = s', emits = (c, ''message'', message) # es, acks = callback cb AckOk,
                      thrown = None, pending = pend\<rparr>)))"

text \<open>
  The \<open>disconnect\<close> listener. \<open>!code\<close> holds for \<open>undefined\<close> and for the empty string.
\<close>

definition on_disconnect :: "string \<Rightarrow> state \<Rightarrow> outcome" where
  "on_disconnect sid s =
     (if \<not> truthy (socketToLobby s sid)
      then \<lparr>st = s, emits = [], acks = [], thrown = None, pending = None\<rparr>
      else
        (let c = the (socketToLobby s sid);
             s1 = s\<lparr>socketToLobby := (socketToLobby s)(sid := None)\<rparr>
         in case lobbyUsers s1 c of
              None \<Rightarrow>
                \<lparr>st = s1\<lparr>socketToNickname := (socketToNickname s1)(sid := None)\<rparr>,
                 emits = [], acks = [], thrown = None, pending = None\<rparr>
            | Some users \<Rightarrow>
                (let s2 = s1\<lparr>lobbyUsers := (lobbyUsers s1)(c \<mapsto> AList.delete sid users)\<rparr>
                 in \<lparr>st = s2\<lparr>socketToNickname := (socketToNickname s2)(sid := None)\<rparr>,
                     emits = broadcastUsers s2 c, acks = [], thrown = None, pending = None\<rparr>)))"

text \<open>The transport takes a closing socket out of its rooms by itself.\<close>

definition leave_rooms :: "string \<Rightarrow> state \<Rightarrow> state" where
  "leave_rooms sid s = s\<lparr>rooms := (\<lambda>r. rooms s r - {sid})\<rparr>"

subsection \<open>The states the server can be in\<close>

text \<open>
  The server starts on some table and then runs handlers one at a time, in any order and
  on any input. The part of \<open>sendAssistantMessage\<close> after its \<open>await\<close> is a step of its
  own, since other handlers run while the completion call is awaited.
\<close>

inductive reachable :: "state \<Rightarrow> bool" where
  r_init: "reachable (init d)"
| r_post_lobby: "reachable s \<Longrightarrow> reachable (snd (post_lobby envKey rnd reqBody s))"
| r_post_lobby_join: "reachable s \<Longrightarrow> reachable (snd (post_lobby_join reqBody s))"
| r_get_messages: "reachable s \<Longrightarrow> reachable (snd (get_messages c s))"
| r_joinLobby: "reachable s \<Longrightarrow> reachable (st (on_joinLobby sid cb p s))"
| r_message: "reachable s \<Longrightarrow> reachable (st (on_message cb w now t1 t2 p s))"
| r_resume: "reachable s \<Longrightarrow> reachable (fst (sendAssistantMessage_resume po w now t1 t2 c s))"
| r_leave_rooms: "reachable s \<Longrightarrow> reachable (leave_rooms sid s)"
| r_disconnect: "reachable s \<Longrightarrow> reachable (st (on_disconnect sid s))"

subsection \<open>A small run\<close>

text \<open>
  The states and the payload that the examples below use: a server that starts on an
  empty table and answers \<open>POST /lobby\<close> for \<open>{nickname: "Alice"}\<close> with every random
  reading 0, which gives the lobby \<open>AAAAAA\<close>; then the socket \<open>s1\<close> joins it as Alice;
  then a \<open>message\<close> event with the content \<open>hello\<close>, read at the clock values 1000, 1001
  and 1002.
\<close>

definition demo_lobby :: "string option \<Rightarrow> state" where
  "demo_lobby envKey =
     snd (post_lobby envKey (\<lambda>i. 0) (JObj [(''nickname'', JStr ''Alice'')])
            (init \<lparr>rows = [], seq = 0\<rparr>))"

definition demo_join :: json where
  "demo_join = JObj [(''code'', JStr ''AAAAAA''), (''nickname'', JStr ''Alice'')]"

definition demo_joined :: state where
  "demo_joined = st (on_joinLobby ''s1'' True demo_join (demo_lobby None))"

definition demo_hello :: json where
  "demo_hello =
     JObj [(''code'', JStr ''AAAAAA''), (''nickname'', JStr ''Alice''),
           (''content'', JStr ''hello'')]"

definition demo_send :: "write_outcome \<Rightarrow> state \<Rightarrow> outcome" where
  "demo_send w s = on_message True w 1000 1001 1002 demo_hello s"

text \<open>A second socket \<open>s2\<close> joins the lobby as Bob.\<close>

definition demo_two :: state where
  "demo_two =
     st (on_joinLobby ''s2'' True
           (JObj [(''code'', JStr ''AAAAAA''), (''nickname'', JStr ''Bob'')]) demo_joined)"

text \<open>A table with three rows, two of them of the lobby \<open>AAAAAA\<close> and not in time order.\<close>

definition demo_rows :: database where
  "demo_rows =
     \<lparr>rows = [\<lparr>msg_id = 1, lobbyCode = ''AAAAAA'', sender = ''Alice'', role = ''user'',
               content = ''late'', createdAt = 30\<rparr>,
              \<lparr>msg_id = 2, lobbyCode = ''BBBBBB'', sender = ''Bob'', role = ''user'',
               content = ''other'', createdAt = 20\<rparr>,
              \<lparr>msg_id = 3, lobbyCode = ''AAAAAA'', sender = ''DM'', role = ''assistant'',
               content = ''early'', createdAt = 10\<rparr>],
      seq = 3\<rparr>"

section \<open>Properties\<close>

subsection \<open>Lobby codes\<close>

lemma alphabet_length: "length alphabet = 32"
  by (simp add: alphabet_def)

lemma alphabet_distinct: "distinct alphabet"
  by (simp add: alphabet_def)

lemma pick_in_alphabet:
  assumes "0 \<le> r" and "r < 1"
  shows "\<exists>ch \<in> set alphabet. pick r = [ch]"
proof -
  let ?i = "\<lfloor>r * 32\<rfloor>"
  have lo: "0 \<le> ?i" using assms(1) by simp
  have "r * 32 < 32" using assms(2) by simp
  then have hi: "?i < 32" by (simp add: floor_less_iff)
  have "nat ?i < length alphabet" using lo hi unfolding alphabet_length by linarith
  then have "alphabet ! nat ?i \<in> set alphabet" by (rule nth_mem)
  moreover have "pick r = [alphabet ! nat ?i]"
    using lo hi by (simp add: pick_def alphabet_length)
  ultimately show ?thesis by blast
qed

text \<open>The loop from round \<open>i\<close> on adds one symbol of the alphabet for each round left.\<close>

lemma generateCode_loop_shape:
  assumes ok: "\<forall>j<6. 0 \<le> rnd j \<and> rnd j < 1"
  shows "i \<le> 6 \<Longrightarrow> length (generateCode_loop rnd i c) = length c + (6 - i)
     \<and> set (generateCode_loop rnd i c) \<subseteq> set c \<union> set alphabet"
  using ok
proof (induction rnd i c rule: generateCode_loop.induct)
  case (1 rnd i c)
  show ?case
  proof (cases "i < 6")
    case True
    then obtain ch where ch: "ch \<in> set alphabet" "pick (rnd i) = [ch]"
      using pick_in_alphabet "1.prems"(2) by blast
    have ih: "length (generateCode_loop rnd (i + 1) (c @ pick (rnd i)))
                = length (c @ pick (rnd i)) + (6 - (i + 1))
       \<and> set (generateCode_loop rnd (i + 1) (c @ pick (rnd i)))
                \<subseteq> set (c @ pick (rnd i)) \<union> set alphabet"
      using "1.IH" [OF True] True "1.prems"(2) by simp
    have unf: "generateCode_loop rnd i c = generateCode_loop rnd (i + 1) (c @ pick (rnd i))"
      using True by (subst generateCode_loop.simps) simp
    show ?thesis using ih ch True unfolding unf by auto
  next
    case False
    then have "i = 6" using "1.prems"(1) by simp
    then show ?thesis
      by (subst generateCode_loop.simps, subst (2) generateCode_loop.simps) simp
  qed
qed

lemma generateCode_shape:
  assumes "\<forall>j<6. 0 \<le> rnd j \<and> rnd j < 1"
  shows "length (generateCode rnd) = 6 \<and> set (generateCode rnd) \<subseteq> set alphabet"
  using generateCode_loop_shape [OF assms, of 0 "''''"] by (simp add: generateCode_def)

lemma createLobbySchema_valid:
  assumes "is_object b" and "field b ''nickname'' = Some (JStr n)"
      and "1 \<le> length n" and "length n \<le> 32"
      and "field b ''openaiApiKey'' = None \<or>
           (\<exists>k. field b ''openaiApiKey'' = Some (JStr k) \<and> 1 \<le> length k \<and> length k \<le> 200)"
  shows "\<exists>key. createLobbySchema b = Some (n, key)"
  using assms by (auto simp: createLobbySchema_def z_string_min_max_def)

text \<open>
  Claim C5. For a create-lobby body that is valid (an object whose \<open>nickname\<close> is a
  string of 1 to 32 and whose \<open>openaiApiKey\<close> is absent or a string of 1 to 200), and
  readings of \<open>Math.random()\<close> in its range \<open>[0, 1)\<close>, \<open>POST /lobby\<close> answers 200 with a
  code of length exactly 6 whose every character is in the alphabet; the alphabet has 32
  distinct symbols, none of them \<open>I\<close>, \<open>O\<close>, \<open>0\<close> or \<open>1\<close>.
\<close>

theorem createLobby_code_shape:
  assumes "is_object b" and "field b ''nickname'' = Some (JStr n)"
      and "1 \<le> length n" and "length n \<le> 32"
      and "field b ''openaiApiKey'' = None \<or>
           (\<exists>k. field b ''openaiApiKey'' = Some (JStr k) \<and> 1 \<le> length k \<and> length k \<le> 200)"
      and "\<forall>j<6. 0 \<le> rnd j \<and> rnd j < 1"
  shows "\<exists>c. fst (post_lobby envKey rnd b s) = (200, CodeBody c) \<and> length c = 6
           \<and> set c \<subseteq> set alphabet \<and> length alphabet = 32 \<and> distinct alphabet
           \<and> set alphabet \<inter> set ''IO01'' = {}"
proof -
  obtain key where "createLobbySchema b = Some (n, key)"
    using createLobbySchema_valid [OF assms(1-5)] by blast
  then have "fst (post_lobby envKey rnd b s) = (200, CodeBody (generateCode rnd))"
    by (simp add: post_lobby_def Let_def)
  moreover have "set alphabet \<inter> set ''IO01'' = {}" by (simp add: alphabet_def)
  ultimately show ?thesis
    using generateCode_shape [OF assms(6)] alphabet_length alphabet_distinct by blast
qed

text \<open>The body \<open>{nickname: "Alice"}\<close> with every reading equal to one half gives \<open>SSSSSS\<close>.\<close>

theorem createLobby_code_shape_witness:
  "fst (post_lobby None (\<lambda>i. 1 / 2) (JObj [(''nickname'', JStr ''Alice'')])
         (init \<lparr>rows = [], seq = 0\<rparr>)) = (200, CodeBody ''SSSSSS'')
   \<and> length ''SSSSSS'' = 6 \<and> set ''SSSSSS'' \<subseteq> set alphabet"
  using createLobby_code_shape [of "JObj [(''nickname'', JStr ''Alice'')]" "''Alice''"
      "\<lambda>i. 1 / 2" None "init \<lparr>rows = [], seq = 0\<rparr>"]
  by (simp add: post_lobby_def createLobbySchema_def z_string_min_max_def generateCode_def
      pick_def alphabet_def Let_def)

subsection \<open>The small run, evaluated\<close>

lemma generateCode_zero: "generateCode (\<lambda>i. 0) = ''AAAAAA''"
  by (simp add: generateCode_def pick_def alphabet_def)

lemma demo_lobby_eq:
  "demo_lobby k =
     \<lparr>lobbies = [''AAAAAA'' \<mapsto> \<lparr>code = ''AAAAAA'', openaiKey = k\<rparr>],
      lobbyUsers = [''AAAAAA'' \<mapsto> []], socketToLobby = Map.empty,
      socketToNickname = Map.empty, db = \<lparr>rows = [], seq = 0\<rparr>, rooms = (\<lambda>r. {})\<rparr>"
  by (simp add: demo_lobby_def post_lobby_def createLobbySchema_def z_string_min_max_def
      generateCode_zero init_def js_or_def truthy_def Let_def)

lemma joinLobbySchema_demo_join: "joinLobbySchema demo_join = Some (''AAAAAA'', ''Alice'')"
  by (simp add: joinLobbySchema_def demo_join_def z_string_min_max_def)

lemma demo_joined_eq:
  "demo_joined =
     \<lparr>lobbies = [''AAAAAA'' \<mapsto> \<lparr>code = ''AAAAAA'', openaiKey = None\<rparr>],
      lobbyUsers = [''AAAAAA'' \<mapsto> [(''s1'', ''Alice'')]],
      socketToLobby = [''s1'' \<mapsto> ''AAAAAA''],
      socketToNickname = [''s1'' \<mapsto> ''Alice''], db = \<lparr>rows = [], seq = 0\<rparr>,
      rooms = (\<lambda>r. {})(''AAAAAA'' := {''s1''})\<rparr>"
  by (simp add: demo_joined_def on_joinLobby_def joinLobbySchema_demo_join demo_lobby_eq Let_def)

lemma demo_joined_reachable: "reachable demo_joined"
  unfolding demo_joined_def demo_lobby_def
  by (intro reachable.r_joinLobby reachable.r_post_lobby reachable.r_init)

lemma messageSchema_demo_hello:
  "messageSchema demo_hello = Some (''AAAAAA'', ''Alice'', ''hello'')"
  by (simp add: messageSchema_def demo_hello_def z_string_min_max_def)

subsection \<open>Schemas\<close>

lemma z_string_Some: "z_string v = Some s \<longleftrightarrow> v = Some (JStr s)"
  by (cases v rule: z_string.cases) auto

lemma joinLobbySchema_code:
  assumes "joinLobbySchema p = Some (c, n)"
  shows "field p ''code'' = Some (JStr c) \<and> 4 \<le> length c"
  using assms
  by (auto simp: joinLobbySchema_def z_string_min_max_def z_string_Some
      split: option.splits if_splits)

lemma messageSchema_content_invalid:
  assumes "field p ''content'' = Some (JStr txt)" and "length txt = 0 \<or> 400 < length txt"
  shows "messageSchema p = None"
  using assms by (auto simp: messageSchema_def z_string_min_max_def split: option.splits)

lemma messageSchema_valid:
  assumes "is_object p" and "field p ''code'' = Some (JStr c)"
      and "field p ''nickname'' = Some (JStr n)" and "field p ''content'' = Some (JStr txt)"
      and "1 \<le> length txt" and "length txt \<le> 400"
  shows "messageSchema p = Some (c, n, txt)"
  using assms by (simp add: messageSchema_def z_string_min_max_def)

subsection \<open>An accepted send\<close>

text \<open>
  What the \<open>message\<close> listener does with a payload that passes the schema, for a lobby
  that exists, when the write succeeds.
\<close>

lemma on_message_stored:
  assumes "messageSchema p = Some (c, n, txt)" and "lobbies s c \<noteq> None"
  shows "on_message cb WriteOk now t1 t2 p s =
           (let s' = s\<lparr>db := \<lparr>rows = rows (db s) @
                        [\<lparr>msg_id = seq (db s) + 1, lobbyCode = c, sender = n, role = ''user'',
                          content = txt, createdAt = now\<rparr>], seq = seq (db s) + 1\<rparr>\<rparr>
            in \<lparr>st = s',
                emits = (c, ''message'', MessagePayload now n ''user'' txt now)
                          # fst (sendAssistantMessage t1 t2 c txt s'),
                acks = callback cb AckOk, thrown = None,
                pending = snd (sendAssistantMessage t1 t2 c txt s')\<rparr>)"
  using assms
  by (simp add: on_message_def insertMessage_run_def Let_def split: prod.splits)

lemma filter_selectMessages:
  "filter P (selectMessages d c) =
     sort_key createdAt (filter (\<lambda>r. lobbyCode r = c) (filter P (rows d)))"
  by (simp add: selectMessages_def filter_sort) (metis filter_filter conj_commute)

subsection \<open>The assistant without a key\<close>

text \<open>
  Claim C1, as amended. When the lobby has no usable key, an accepted send whose user
  message is stored emits exactly two messages to the lobby: the user message and one
  assistant-role notice. No completion call is left pending. The notice is not written to
  the table: the only new row is the user message, and the assistant-role rows that
  \<open>GET /lobby/:code/messages\<close> returns for the lobby are the ones it returned before.
\<close>

theorem no_key_notice_not_stored:
  assumes "messageSchema p = Some (c, n, txt)" and "lobbies s c = Some l"
      and "\<not> truthy (openaiKey l)"
  shows "emits (on_message cb WriteOk now t1 t2 p s) =
           [(c, ''message'', MessagePayload now n ''user'' txt now),
            (c, ''message'', MessagePayload t1 ''DM'' ''assistant''
                               ''No OpenAI API key configured for this lobby.'' t2)]
       \<and> pending (on_message cb WriteOk now t1 t2 p s) = None
       \<and> rows (db (st (on_message cb WriteOk now t1 t2 p s))) =
           rows (db s) @ [\<lparr>msg_id = seq (db s) + 1, lobbyCode = c, sender = n, role = ''user'',
                            content = txt, createdAt = now\<rparr>]
       \<and> filter (\<lambda>m. role m = ''assistant'')
             (selectMessages (db (st (on_message cb WriteOk now t1 t2 p s))) c)
           = filter (\<lambda>m. role m = ''assistant'') (selectMessages (db s) c)"
  using assms
  by (simp add: on_message_stored sendAssistantMessage_def Let_def filter_selectMessages)

theorem no_key_notice_not_stored_witness:
  "messageSchema demo_hello = Some (''AAAAAA'', ''Alice'', ''hello'')
   \<and> lobbies (demo_lobby None) ''AAAAAA'' = Some \<lparr>code = ''AAAAAA'', openaiKey = None\<rparr>
   \<and> pending (demo_send WriteOk (demo_lobby None)) = None
   \<and> rows (db (st (demo_send WriteOk (demo_lobby None)))) =
       [\<lparr>msg_id = 1, lobbyCode = ''AAAAAA'', sender = ''Alice'', role = ''user'',
         content = ''hello'', createdAt = 1000\<rparr>]"
  using no_key_notice_not_stored [of demo_hello "''AAAAAA''" "''Alice''" "''hello''"
      "demo_lobby None" "\<lparr>code = ''AAAAAA'', openaiKey = None\<rparr>" True 1000 1001 1002]
  by (simp add: messageSchema_demo_hello demo_lobby_eq truthy_def demo_send_def)

text \<open>
  In the small run the notice is emitted, and the history of the lobby after the send
  holds the user message alone.
\<close>

theorem no_key_notice_counterexample:
  "emits (demo_send WriteOk (demo_lobby None)) =
     [(''AAAAAA'', ''message'', MessagePayload 1000 ''Alice'' ''user'' ''hello'' 1000),
      (''AAAAAA'', ''message'', MessagePayload 1001 ''DM'' ''assistant''
                         ''No OpenAI API key configured for this lobby.'' 1002)]
   \<and> fst (get_messages ''AAAAAA'' (st (demo_send WriteOk (demo_lobby None)))) =
       (200, MessagesBody [\<lparr>msg_id = 1, lobbyCode = ''AAAAAA'', sender = ''Alice'',
                            role = ''user'', content = ''hello'', createdAt = 1000\<rparr>])"
  by (simp add: demo_send_def on_message_def messageSchema_demo_hello demo_lobby_eq
      insertMessage_run_def sendAssistantMessage_def truthy_def get_messages_def
      selectMessages_def)

subsection \<open>Identifiers\<close>

text \<open>
  Claim C2, as amended. In the message that is broadcast for a stored user message, and
  in the one broadcast for a stored assistant reply (the text of the completion, or
  \<open>Ready to keep chatting!\<close> when the completion has no usable text), \<open>id\<close> equals
  \<open>createdAt\<close>: both are the one clock reading. The row that is stored has that reading
  as \<open>createdAt\<close>, and as \<open>id\<close> the next row id of the table, which is what the history
  returns.
\<close>

theorem broadcast_id_is_createdAt:
  assumes "messageSchema p = Some (c, n, txt)" and "lobbies s c \<noteq> None"
  shows "(\<exists>es. emits (on_message cb WriteOk now t1 t2 p s) =
                 (c, ''message'', MessagePayload now n ''user'' txt now) # es)
       \<and> db (st (on_message cb WriteOk now t1 t2 p s)) =
           \<lparr>rows = rows (db s) @ [\<lparr>msg_id = seq (db s) + 1, lobbyCode = c, sender = n,
                                   role = ''user'', content = txt, createdAt = now\<rparr>],
            seq = seq (db s) + 1\<rparr>
       \<and> sendAssistantMessage_resume (Completion reply) WriteOk now' u1 u2 c s' =
           (s'\<lparr>db := \<lparr>rows = rows (db s') @ [\<lparr>msg_id = seq (db s') + 1, lobbyCode = c,
                         sender = ''DM'', role = ''assistant'',
                         content = (if truthy reply then the reply
                                    else ''Ready to keep chatting!''),
                         createdAt = now'\<rparr>], seq = seq (db s') + 1\<rparr>\<rparr>,
            [(c, ''message'',
              MessagePayload now' ''DM'' ''assistant''
                (if truthy reply then the reply else ''Ready to keep chatting!'') now')])"
  using assms
  by (simp add: on_message_stored Let_def sendAssistantMessage_resume_def
      insertMessage_run_def)

theorem broadcast_id_is_createdAt_witness:
  "messageSchema demo_hello = Some (''AAAAAA'', ''Alice'', ''hello'')
   \<and> lobbies demo_joined ''AAAAAA'' \<noteq> None
   \<and> db (st (demo_send WriteOk demo_joined)) =
       \<lparr>rows = [\<lparr>msg_id = 1, lobbyCode = ''AAAAAA'', sender = ''Alice'', role = ''user'',
                 content = ''hello'', createdAt = 1000\<rparr>], seq = 1\<rparr>
   \<and> snd (sendAssistantMessage_resume (Completion None) WriteOk 2000 2001 2002 ''AAAAAA''
            (st (demo_send WriteOk demo_joined))) =
       [(''AAAAAA'', ''message'',
         MessagePayload 2000 ''DM'' ''assistant'' ''Ready to keep chatting!'' 2000)]
   \<and> rows (db (fst (sendAssistantMessage_resume (Completion (Some ''Hi all'')) WriteOk
                         2000 2001 2002 ''AAAAAA'' (st (demo_send WriteOk demo_joined))))) =
       [\<lparr>msg_id = 1, lobbyCode = ''AAAAAA'', sender = ''Alice'', role = ''user'',
         content = ''hello'', createdAt = 1000\<rparr>,
        \<lparr>msg_id = 2, lobbyCode = ''AAAAAA'', sender = ''DM'', role = ''assistant'',
         content = ''Hi all'', createdAt = 2000\<rparr>]"
  using broadcast_id_is_createdAt [of demo_hello "''AAAAAA''" "''Alice''" "''hello''"
      demo_joined True 1000 1001 1002 None 2000 2001 2002
      "st (demo_send WriteOk demo_joined)"]
    broadcast_id_is_createdAt [of demo_hello "''AAAAAA''" "''Alice''" "''hello''"
      demo_joined True 1000 1001 1002 "Some ''Hi all''" 2000 2001 2002
      "st (demo_send WriteOk demo_joined)"]
  by (simp add: messageSchema_demo_hello demo_joined_eq demo_send_def truthy_def)

text \<open>
  In the small run with a key, the message is broadcast with the id 1000 and comes back
  from the history with the id 1.
\<close>

theorem history_id_counterexample:
  "emits (demo_send WriteOk (demo_lobby (Some ''sk-test''))) =
     [(''AAAAAA'', ''message'', MessagePayload 1000 ''Alice'' ''user'' ''hello'' 1000)]
   \<and> map msg_id (selectMessages (db (st (demo_send WriteOk (demo_lobby (Some ''sk-test'')))))
        ''AAAAAA'') = [1]
   \<and> map createdAt (selectMessages (db (st (demo_send WriteOk (demo_lobby (Some ''sk-test'')))))
        ''AAAAAA'') = [1000]"
  by (simp add: demo_send_def on_message_def messageSchema_demo_hello demo_lobby_eq
      insertMessage_run_def sendAssistantMessage_def truthy_def selectMessages_def)

subsection \<open>A write that fails\<close>

text \<open>
  Every accepted send behaves so when the write of the user message fails: the exception
  leaves the listener before the emit and before the callback.
\<close>

lemma write_failure_ends_listener:
  assumes "messageSchema p = Some (c, n, txt)" and "lobbies s c \<noteq> None"
  shows "emits (on_message cb WriteFails now t1 t2 p s) = []
       \<and> acks (on_message cb WriteFails now t1 t2 p s) = []
       \<and> pending (on_message cb WriteFails now t1 t2 p s) = None
       \<and> thrown (on_message cb WriteFails now t1 t2 p s) = Some StorageError"
  using assms by (simp add: on_message_def insertMessage_run_def)

text \<open>
  Claim C3, at a failing write. The claim asks that the broadcast of a user message goes
  on when its durable append fails. In the small run the socket \<open>s1\<close> is in the room of
  the lobby and sends \<open>hello\<close> while the write fails: nothing is emitted, no assistant
  response is started, nothing is acknowledged, and the \<open>StorageError\<close> leaves the
  listener. The write of the assistant reply in \<open>sendAssistantMessage\<close> is inside a
  \<open>try\<close> whose \<open>catch\<close> still emits; the write of the user message is not.
\<close>

theorem storage_failure_blocks_broadcast:
  "rooms demo_joined ''AAAAAA'' = {''s1''}
   \<and> emits (demo_send WriteFails demo_joined) = []
   \<and> pending (demo_send WriteFails demo_joined) = None
   \<and> acks (demo_send WriteFails demo_joined) = []
   \<and> thrown (demo_send WriteFails demo_joined) = Some StorageError
   \<and> snd (sendAssistantMessage_resume (Completion (Some ''Hi all'')) WriteFails
            2000 2001 2002 ''AAAAAA'' demo_joined) =
       [(''AAAAAA'', ''message'',
         MessagePayload 2001 ''DM'' ''assistant'' ''The DM is unavailable right now.'' 2002)]"
  by (simp add: demo_send_def on_message_def messageSchema_demo_hello demo_joined_eq
      insertMessage_run_def sendAssistantMessage_resume_def truthy_def)

subsection \<open>A completion call that fails\<close>

text \<open>
  Claim C4, as amended. A send to a lobby with a key is acknowledged with \<open>{}\<close> and leaves
  the completion call pending; nothing is thrown. When the call fails, in whatever state
  the server is by then, exactly one assistant-role message with the text
  \<open>The DM is unavailable right now.\<close> is emitted to the lobby, and the state, the table
  included, stays as it is: the message is not stored.
\<close>

theorem provider_failure_notice:
  assumes "messageSchema p = Some (c, n, txt)" and "lobbies s c = Some l"
      and "truthy (openaiKey l)"
  shows "acks (on_message cb WriteOk now t1 t2 p s) = callback cb AckOk
       \<and> thrown (on_message cb WriteOk now t1 t2 p s) = None
       \<and> pending (on_message cb WriteOk now t1 t2 p s) = Some (c, the (openaiKey l), txt)
       \<and> emits (on_message cb WriteOk now t1 t2 p s) =
           [(c, ''message'', MessagePayload now n ''user'' txt now)]
       \<and> sendAssistantMessage_resume ProviderError w now' u1 u2 c s' =
           (s', [(c, ''message'', MessagePayload u1 ''DM'' ''assistant''
                                    ''The DM is unavailable right now.'' u2)])"
  using assms
  by (simp add: on_message_stored sendAssistantMessage_def Let_def
      sendAssistantMessage_resume_def)

theorem provider_failure_notice_witness:
  "messageSchema demo_hello = Some (''AAAAAA'', ''Alice'', ''hello'')
   \<and> truthy (Some ''sk-test'')
   \<and> acks (demo_send WriteOk (demo_lobby (Some ''sk-test''))) = [AckOk]
   \<and> pending (demo_send WriteOk (demo_lobby (Some ''sk-test''))) =
       Some (''AAAAAA'', ''sk-test'', ''hello'')"
  using provider_failure_notice [of demo_hello "''AAAAAA''" "''Alice''" "''hello''"
      "demo_lobby (Some ''sk-test'')" "\<lparr>code = ''AAAAAA'', openaiKey = Some ''sk-test''\<rparr>"
      True 1000 1001 1002]
  by (simp add: messageSchema_demo_hello demo_lobby_eq truthy_def demo_send_def callback_def)

text \<open>
  In the small run with a key, the failure notice is emitted and the history of the lobby
  afterwards holds the user message alone.
\<close>

theorem provider_failure_counterexample:
  "snd (sendAssistantMessage_resume ProviderError WriteOk 2000 2001 2002 ''AAAAAA''
          (st (demo_send WriteOk (demo_lobby (Some ''sk-test''))))) =
     [(''AAAAAA'', ''message'', MessagePayload 2001 ''DM'' ''assistant''
                         ''The DM is unavailable right now.'' 2002)]
   \<and> fst (get_messages ''AAAAAA''
        (fst (sendAssistantMessage_resume ProviderError WriteOk 2000 2001 2002 ''AAAAAA''
               (st (demo_send WriteOk (demo_lobby (Some ''sk-test''))))))) =
       (200, MessagesBody [\<lparr>msg_id = 1, lobbyCode = ''AAAAAA'', sender = ''Alice'',
                            role = ''user'', content = ''hello'', createdAt = 1000\<rparr>])"
  by (simp add: sendAssistantMessage_resume_def demo_send_def on_message_def
      messageSchema_demo_hello demo_lobby_eq insertMessage_run_def sendAssistantMessage_def
      truthy_def get_messages_def selectMessages_def)

subsection \<open>Rejected sends\<close>

text \<open>
  Claim C6. A send whose \<open>content\<close> is a string of length 0 or of length above 400 is
  rejected: the only effect is the acknowledgement \<open>{error: 'Invalid payload'}\<close> handed to
  the sender's callback (a sender that passed none gets nothing). Nothing is emitted, and
  the state, the table included, is unchanged, whatever the write or the clock would have
  been.
\<close>

theorem invalid_content_rejected:
  assumes "field p ''content'' = Some (JStr txt)" and "length txt = 0 \<or> 400 < length txt"
  shows "on_message cb w now t1 t2 p s =
           \<lparr>st = s, emits = [], acks = (if cb then [AckError ''Invalid payload''] else []),
            thrown = None, pending = None\<rparr>"
  using messageSchema_content_invalid [OF assms] by (simp add: on_message_def callback_def)

theorem invalid_content_rejected_witness:
  "field (JObj [(''code'', JStr ''AAAAAA''), (''nickname'', JStr ''Alice''),
                (''content'', JStr '''')]) ''content'' = Some (JStr '''')
   \<and> on_message True WriteOk 1000 1001 1002
       (JObj [(''code'', JStr ''AAAAAA''), (''nickname'', JStr ''Alice''),
              (''content'', JStr '''')]) demo_joined
     = \<lparr>st = demo_joined, emits = [], acks = [AckError ''Invalid payload''],
        thrown = None, pending = None\<rparr>"
  using invalid_content_rejected [of
      "JObj [(''code'', JStr ''AAAAAA''), (''nickname'', JStr ''Alice''),
             (''content'', JStr '''')]"
      "''''" True WriteOk 1000 1001 1002 demo_joined]
  by simp

subsection \<open>Joining a lobby that does not exist\<close>

text \<open>
  Claim C7. When no lobby exists for the code of a join payload, \<open>POST /lobby/join\<close>
  answers with an error body, 404 \<open>Lobby not found\<close> when the payload passes the schema
  and 400 \<open>Invalid payload\<close> otherwise, and the \<open>joinLobby\<close> listener hands the same
  error to the acknowledgement callback. Neither changes the state, nothing is emitted, and
  neither answer is the success answer.
\<close>

theorem join_unknown_lobby:
  assumes "\<forall>c. field p ''code'' = Some (JStr c) \<longrightarrow> lobbies s c = None"
  shows "post_lobby_join p s =
           (if joinLobbySchema p = None then ((400, ErrorBody ''Invalid payload''), s)
            else ((404, ErrorBody ''Lobby not found''), s))
       \<and> fst (post_lobby_join p s) \<noteq> (200, OkBody)
       \<and> on_joinLobby sid cb p s =
           \<lparr>st = s, emits = [],
            acks = callback cb (AckError (if joinLobbySchema p = None then ''Invalid payload''
                                          else ''Lobby not found'')),
            thrown = None, pending = None\<rparr>
       \<and> AckOk \<notin> set (acks (on_joinLobby sid cb p s))"
proof (cases "joinLobbySchema p")
  case None
  then show ?thesis by (simp add: post_lobby_join_def on_joinLobby_def callback_def)
next
  case (Some cn)
  obtain c n where cn: "cn = (c, n)" by (cases cn)
  have "lobbies s c = None" using joinLobbySchema_code [of p c n] Some cn assms by simp
  then show ?thesis
    using Some cn by (simp add: post_lobby_join_def on_joinLobby_def callback_def)
qed

theorem join_unknown_lobby_witness:
  "lobbies (init demo_rows) ''AAAAAA'' = None
   \<and> post_lobby_join demo_join (init demo_rows) =
       ((404, ErrorBody ''Lobby not found''), init demo_rows)
   \<and> on_joinLobby ''s1'' True demo_join (init demo_rows) =
       \<lparr>st = init demo_rows, emits = [], acks = [AckError ''Lobby not found''],
        thrown = None, pending = None\<rparr>"
  using join_unknown_lobby [of demo_join "init demo_rows" "''s1''" True]
  by (simp add: joinLobbySchema_demo_join init_def callback_def)

subsection \<open>History\<close>

text \<open>
  Claim C8. \<open>GET /lobby/:code/messages\<close> answers 404 \<open>Lobby not found\<close> when the lobby
  does not exist. Otherwise it answers with the rows of \<open>selectMessages\<close>, which are
  exactly the stored rows of that lobby (as a multiset), in ascending order of
  \<open>createdAt\<close>, and the empty list when the lobby has no row. The state is not changed.
\<close>

theorem fetchHistory_sorted:
  "(lobbies s c = None \<longrightarrow> get_messages c s = ((404, ErrorBody ''Lobby not found''), s))
 \<and> (lobbies s c \<noteq> None \<longrightarrow>
      get_messages c s = ((200, MessagesBody (selectMessages (db s) c)), s)
    \<and> mset (selectMessages (db s) c) = mset (filter (\<lambda>r. lobbyCode r = c) (rows (db s)))
    \<and> sorted (map createdAt (selectMessages (db s) c))
    \<and> (filter (\<lambda>r. lobbyCode r = c) (rows (db s)) = [] \<longrightarrow> selectMessages (db s) c = []))"
  by (simp add: get_messages_def selectMessages_def)

theorem fetchHistory_sorted_witness:
  "lobbies ((demo_lobby None)\<lparr>db := demo_rows\<rparr>) ''AAAAAA'' \<noteq> None
   \<and> lobbies ((demo_lobby None)\<lparr>db := demo_rows\<rparr>) ''BBBBBB'' = None
   \<and> fst (get_messages ''BBBBBB'' ((demo_lobby None)\<lparr>db := demo_rows\<rparr>)) =
       (404, ErrorBody ''Lobby not found'')
   \<and> fst (get_messages ''AAAAAA'' ((demo_lobby None)\<lparr>db := demo_rows\<rparr>)) =
       (200, MessagesBody
          [\<lparr>msg_id = 3, lobbyCode = ''AAAAAA'', sender = ''DM'', role = ''assistant'',
            content = ''early'', createdAt = 10\<rparr>,
           \<lparr>msg_id = 1, lobbyCode = ''AAAAAA'', sender = ''Alice'', role = ''user'',
            content = ''late'', createdAt = 30\<rparr>])"
  using fetchHistory_sorted [of "(demo_lobby None)\<lparr>db := demo_rows\<rparr>" "''AAAAAA''"]
    fetchHistory_sorted [of "(demo_lobby None)\<lparr>db := demo_rows\<rparr>" "''BBBBBB''"]
  by (simp add: demo_lobby_eq demo_rows_def selectMessages_def)

subsection \<open>Disconnect\<close>

text \<open>A socket is recorded only for a code that is not empty and that has a roster.\<close>

lemma recorded_lobby_has_roster:
  assumes "reachable s"
  shows "socketToLobby s sid = Some c \<Longrightarrow> c \<noteq> [] \<and> lobbyUsers s c \<noteq> None"
  using assms
proof (induction arbitrary: sid c rule: reachable.induct)
  case (r_init d)
  then show ?case by (simp add: init_def)
next
  case (r_post_lobby s envKey rnd reqBody)
  then show ?case
    by (auto simp: post_lobby_def Let_def split: option.splits prod.splits)
next
  case (r_post_lobby_join s reqBody)
  then show ?case
    by (auto simp: post_lobby_join_def split: option.splits prod.splits if_splits)
next
  case (r_get_messages s c')
  then show ?case by (auto simp: get_messages_def split: if_splits)
next
  case (r_joinLobby s sid' cb p)
  show ?case
  proof (cases "joinLobbySchema p")
    case None
    then show ?thesis using r_joinLobby by (simp add: on_joinLobby_def)
  next
    case (Some cn)
    obtain c' n where cn: "cn = (c', n)" by (cases cn)
    have c': "c' \<noteq> []" using joinLobbySchema_code [of p c' n] Some cn by auto
    show ?thesis
      using r_joinLobby Some cn c'
      by (auto simp: on_joinLobby_def Let_def split: if_splits)
  qed
next
  case (r_message s cb w now t1 t2 p)
  then show ?case
    by (auto simp: on_message_def Let_def split: option.splits prod.splits if_splits sum.splits)
next
  case (r_resume s po w now t1 t2 c')
  then show ?case
    by (auto simp: sendAssistantMessage_resume_def Let_def
        split: provider_outcome.splits sum.splits)
next
  case (r_leave_rooms s sid')
  then show ?case by (simp add: leave_rooms_def)
next
  case (r_disconnect s sid')
  then show ?case
    by (auto simp: on_disconnect_def Let_def split: if_splits option.splits)
qed

text \<open>
  Claim C9. In a state the server can reach, take the \<open>disconnect\<close> of the socket \<open>sid\<close>.
  When \<open>sid\<close> has no recorded lobby (it never joined, or its disconnect has run), the
  state is unchanged and nothing is emitted. When its recorded lobby is \<open>L\<close>, the lobby
  has a roster, \<open>sid\<close> is deleted from it and is no key of it afterwards, the rosters of
  the other lobbies are unchanged, the record of \<open>sid\<close> is deleted, and exactly one
  \<open>users\<close> event goes to \<open>L\<close>, carrying the names of the roster after the deletion.
\<close>

theorem disconnect_roster:
  assumes "reachable s"
  shows "(socketToLobby s sid = None \<longrightarrow>
            on_disconnect sid s =
              \<lparr>st = s, emits = [], acks = [], thrown = None, pending = None\<rparr>)
       \<and> (\<forall>L. socketToLobby s sid = Some L \<longrightarrow>
            (\<exists>us. lobbyUsers s L = Some us
               \<and> lobbyUsers (st (on_disconnect sid s)) = (lobbyUsers s)(L \<mapsto> AList.delete sid us)
               \<and> sid \<notin> fst ` set (AList.delete sid us)
               \<and> socketToLobby (st (on_disconnect sid s)) = (socketToLobby s)(sid := None)
               \<and> emits (on_disconnect sid s)
                    = [(L, ''users'', UsersPayload (map snd (AList.delete sid us)))]))"
proof (intro conjI impI allI)
  assume "socketToLobby s sid = None"
  then show "on_disconnect sid s =
      \<lparr>st = s, emits = [], acks = [], thrown = None, pending = None\<rparr>"
    by (simp add: on_disconnect_def truthy_def)
next
  fix L
  assume L: "socketToLobby s sid = Some L"
  from recorded_lobby_has_roster [OF assms L] obtain us
    where ne: "L \<noteq> []" and us: "lobbyUsers s L = Some us" by auto
  have "sid \<notin> fst ` set (AList.delete sid us)"
    by (auto simp: AList.delete_eq)
  then show "\<exists>us. lobbyUsers s L = Some us
               \<and> lobbyUsers (st (on_disconnect sid s)) = (lobbyUsers s)(L \<mapsto> AList.delete sid us)
               \<and> sid \<notin> fst ` set (AList.delete sid us)
               \<and> socketToLobby (st (on_disconnect sid s)) = (socketToLobby s)(sid := None)
               \<and> emits (on_disconnect sid s)
                    = [(L, ''users'', UsersPayload (map snd (AList.delete sid us)))]"
    using L ne us
    by (simp add: on_disconnect_def truthy_def Let_def broadcastUsers_def)
qed

lemma demo_two_eq:
  "demo_two =
     \<lparr>lobbies = [''AAAAAA'' \<mapsto> \<lparr>code = ''AAAAAA'', openaiKey = None\<rparr>],
      lobbyUsers = [''AAAAAA'' \<mapsto> [(''s1'', ''Alice''), (''s2'', ''Bob'')]],
      socketToLobby = [''s1'' \<mapsto> ''AAAAAA'', ''s2'' \<mapsto> ''AAAAAA''],
      socketToNickname = [''s1'' \<mapsto> ''Alice'', ''s2'' \<mapsto> ''Bob''],
      db = \<lparr>rows = [], seq = 0\<rparr>,
      rooms = (\<lambda>r. {})(''AAAAAA'' := {''s2'', ''s1''})\<rparr>"
  by (auto simp: demo_two_def on_joinLobby_def joinLobbySchema_def z_string_min_max_def
      demo_joined_eq Let_def)

lemma demo_two_reachable: "reachable demo_two"
  unfolding demo_two_def by (intro reachable.r_joinLobby demo_joined_reachable)

theorem disconnect_roster_witness:
  "socketToLobby demo_two ''s1'' = Some ''AAAAAA''
   \<and> socketToLobby demo_two ''s3'' = None
   \<and> emits (on_disconnect ''s1'' demo_two) = [(''AAAAAA'', ''users'', UsersPayload [''Bob''])]
   \<and> lobbyUsers (st (on_disconnect ''s1'' demo_two)) ''AAAAAA'' = Some [(''s2'', ''Bob'')]
   \<and> on_disconnect ''s3'' demo_two =
       \<lparr>st = demo_two, emits = [], acks = [], thrown = None, pending = None\<rparr>"
  using disconnect_roster [OF demo_two_reachable, of "''s1''"]
    disconnect_roster [OF demo_two_reachable, of "''s3''"]
  by (auto simp: demo_two_eq)

subsection \<open>The sender label\<close>

text \<open>
  Claim C10. The \<open>message\<close> listener takes the sender from the \<open>nickname\<close> of the payload
  and asks only that it is a string. For every string \<open>n\<close>, of any length, and every
  state, whatever \<open>socketToNickname\<close> holds (the listener does not read the socket id), a
  send with a content of 1 to 400 to a lobby that exists stores a row with the sender \<open>n\<close>,
  emits the message with the sender \<open>n\<close> first, and is acknowledged with \<open>{}\<close>.
\<close>

theorem sender_is_payload_nickname:
  assumes "is_object p" and "field p ''code'' = Some (JStr c)"
      and "field p ''nickname'' = Some (JStr n)" and "field p ''content'' = Some (JStr txt)"
      and "1 \<le> length txt" and "length txt \<le> 400" and "lobbies s c \<noteq> None"
  shows "rows (db (st (on_message cb WriteOk now t1 t2 p s))) =
           rows (db s) @ [\<lparr>msg_id = seq (db s) + 1, lobbyCode = c, sender = n, role = ''user'',
                            content = txt, createdAt = now\<rparr>]
       \<and> (\<exists>es. emits (on_message cb WriteOk now t1 t2 p s) =
                 (c, ''message'', MessagePayload now n ''user'' txt now) # es)
       \<and> acks (on_message cb WriteOk now t1 t2 p s) = callback cb AckOk"
  using on_message_stored [OF messageSchema_valid [OF assms(1-6)] assms(7)]
  by (simp add: Let_def)

text \<open>
  The socket \<open>s1\<close> joined as Alice and sends with the empty nickname, and with one of 40
  characters.
\<close>

theorem sender_is_payload_nickname_witness:
  "socketToNickname demo_joined ''s1'' = Some ''Alice''
   \<and> rows (db (st (on_message True WriteOk 1000 1001 1002
        (JObj [(''code'', JStr ''AAAAAA''), (''nickname'', JStr ''''),
               (''content'', JStr ''hello'')]) demo_joined))) =
       [\<lparr>msg_id = 1, lobbyCode = ''AAAAAA'', sender = '''', role = ''user'',
         content = ''hello'', createdAt = 1000\<rparr>]
   \<and> length ''0123456789012345678901234567890123456789'' = 40
   \<and> rows (db (st (on_message True WriteOk 1000 1001 1002
        (JObj [(''code'', JStr ''AAAAAA''),
               (''nickname'', JStr ''0123456789012345678901234567890123456789''),
               (''content'', JStr ''hello'')]) demo_joined))) =
       [\<lparr>msg_id = 1, lobbyCode = ''AAAAAA'',
         sender = ''0123456789012345678901234567890123456789'', role = ''user'',
         content = ''hello'', createdAt = 1000\<rparr>]"
  using sender_is_payload_nickname [of
      "JObj [(''code'', JStr ''AAAAAA''), (''nickname'', JStr ''''),
             (''content'', JStr ''hello'')]"
      "''AAAAAA''" "''''" "''hello''" demo_joined True 1000 1001 1002]
    sender_is_payload_nickname [of
      "JObj [(''code'', JStr ''AAAAAA''),
             (''nickname'', JStr ''0123456789012345678901234567890123456789''),
             (''content'', JStr ''hello'')]"
      "''AAAAAA''" "''0123456789012345678901234567890123456789''" "''hello''"
      demo_joined True 1000 1001 1002]
  by (simp add: demo_joined_eq)

end
